theory Spec2Isabelle
  imports Main "HOL-Library.Word"
begin

section \<open>Open Graph image generation: the emitter plugin\<close>

text \<open>
  A shallow embedding of the plugin's source file (the emitter \<open>CustomOgImages\<close> with its
  helpers \<open>write\<close>, \<open>getFileExtension\<close>, \<open>isAbsoluteURL\<close>, \<open>getSatoriFonts\<close>, \<open>fetchTtf\<close>,
  \<open>generateSocialImage\<close> and \<open>processOgImage\<close>) and of \<open>theme.ts\<close>.

  A string is a list of characters, the code units up to 0xFF. An optional field or an
  \<open>undefined\<close> value is an \<open>option\<close>; \<open>a?.f\<close> is \<open>Option.bind a f\<close>, \<open>a ?? b\<close> is a case
  distinction on \<open>None\<close>, and the truthiness test of a string is the test for the empty
  string. A promise is the pair of its result, \<open>Inl\<close> of the error when it is rejected, and
  of the world it leaves. The layout \<open>defaultImage\<close>, with \<open>getDate\<close> and \<open>formatDate\<close>, is
  not part of the embedding: the layout is the field \<open>imageStructure\<close> of the options.
\<close>

subsection \<open>Strings and numbers of the runtime\<close>

type_synonym bytes = "8 word list"

text \<open>\<open>s.startsWith(p)\<close>, returning what follows the prefix.\<close>

fun strip_prefix :: "string \<Rightarrow> string \<Rightarrow> string option" where
  "strip_prefix [] s = Some s"
| "strip_prefix (p # ps) [] = None"
| "strip_prefix (p # ps) (c # cs) = (if p = c then strip_prefix ps cs else None)"

text \<open>
  \<open>String.prototype.replaceAll\<close> with a string pattern: the occurrences are replaced from
  left to right and do not overlap. (The empty pattern, which the source never passes,
  leaves the string as it is here.)
\<close>

function replaceAll :: "string \<Rightarrow> string \<Rightarrow> string \<Rightarrow> string" where
  "replaceAll pat rep [] = []"
| "replaceAll pat rep (c # cs) =
     (case (if pat = [] then None else strip_prefix pat (c # cs)) of
        Some rest \<Rightarrow> rep @ replaceAll pat rep (drop (length pat - 1) cs)
      | None \<Rightarrow> c # replaceAll pat rep cs)"
  by pat_completeness auto
termination
  by (relation "measure (\<lambda>(pat, rep, s). length s)") auto

text \<open>
  \<open>String.prototype.trim\<close>: white space and line terminators are removed at both ends.
  Among the code units up to 0xFF these are TAB, LF, VT, FF, CR, SPACE and NBSP.
\<close>

definition isWhiteSpace :: "char \<Rightarrow> bool" where
  "isWhiteSpace c =
     (c = CHR 0x09 \<or> c = CHR 0x0A \<or> c = CHR 0x0B \<or> c = CHR 0x0C \<or> c = CHR 0x0D \<or>
      c = CHR '' '' \<or> c = CHR 0xA0)"

definition trim :: "string \<Rightarrow> string" where
  "trim s = rev (dropWhile isWhiteSpace (rev (dropWhile isWhiteSpace s)))"

text \<open>
  \<open>Number.prototype.toString\<close> and the template literal \<open>${n}\<close> on an integral number:
  the decimal digits, with a minus sign before a negative number. This is what JavaScript
  prints for the integers below \<open>10^21\<close> in absolute value; the numbers of the model are
  such integers (a weight, a width, a height, a count of minutes), not fractions and not
  the numbers that JavaScript prints with an exponent.
\<close>

definition digitChar :: "nat \<Rightarrow> char" where
  "digitChar d = ''0123456789'' ! d"

function natToString :: "nat \<Rightarrow> string" where
  "natToString n =
     (if n < 10 then [digitChar n] else natToString (n div 10) @ [digitChar (n mod 10)])"
  by pat_completeness auto
termination
  by (relation "measure (\<lambda>n. n)") auto

definition numberToString :: "int \<Rightarrow> string" where
  "numberToString i =
     (if i < 0 then CHR ''-'' # natToString (nat (- i)) else natToString (nat i))"

text \<open>The template literal \<open>${v}\<close> on a string that may be \<open>undefined\<close>.\<close>

definition templateString :: "string option \<Rightarrow> string" where
  "templateString v = (case v of None \<Rightarrow> ''undefined'' | Some s \<Rightarrow> s)"

text \<open>In a regular expression without the \<open>s\<close> flag, \<open>.\<close> is any character but a line terminator.\<close>

definition dot :: "char \<Rightarrow> bool" where
  "dot c = (c \<noteq> CHR 0x0A \<and> c \<noteq> CHR 0x0D)"

subsection \<open>The data of the plugin\<close>

text \<open>
  A field name that the source uses in two types, or that is a keyword here, carries a
  prefix: \<open>fm_title\<close> and \<open>fm_description\<close> of the frontmatter, \<open>pd_description\<close> and
  \<open>pd_text\<close> of the data of a page, \<open>io_\<close> and \<open>li_\<close> for the arguments of
  \<open>generateSocialImage\<close> and of the layout, \<open>res_text\<close> of a response, \<open>ev_type\<close> and \<open>ev_file\<close> of
  a change event.
\<close>

datatype error = FetchRejected string | RenderFailed string

datatype FontSpecification =
    FontName string
  | FontSpec string "int list option" "bool option"

text \<open>\<open>getFontSpecificationName\<close> of \<open>theme.ts\<close>.\<close>

fun getFontSpecificationName :: "FontSpecification \<Rightarrow> string" where
  "getFontSpecificationName (FontName spec) = spec"
| "getFontSpecificationName (FontSpec nm ws it) = nm"

datatype ThemeKey = lightMode | darkMode

record Frontmatter =
  fm_title :: "string option"
  fm_description :: "string option"
  socialDescription :: "string option"
  socialImage :: "string option"
  tags :: "string list option"

record QuartzPluginData =
  slug :: "string option"
  frontmatter :: "Frontmatter option"
  pd_description :: "string option"
  pd_text :: "string option"
  filePath :: "string option"

text \<open>
  The fields of the site configuration and of the build context that the plugin reads.
\<close>

record Typography =
  header :: FontSpecification
  body :: FontSpecification

record GlobalConfiguration =
  baseUrl :: "string option"
  pageTitleSuffix :: "string option"
  typography :: Typography

record BuildCtx =
  argv_output :: string
  configuration :: GlobalConfiguration

record SatoriFont =
  name :: string
  data :: bytes
  weight :: int
  style :: string

record UserOpts =
  colorScheme :: ThemeKey
  height :: int
  width :: int
  excludeRoot :: bool
  defaultTitle :: "string option"
  defaultDescription :: "string option"
  readingTimeText :: "(int \<Rightarrow> string) option"

text \<open>The argument of the layout function \<open>imageStructure\<close>.\<close>

record LayoutInput =
  li_cfg :: GlobalConfiguration
  li_userOpts :: UserOpts
  li_title :: string
  li_description :: string
  li_fonts :: "SatoriFont list"
  li_fileData :: QuartzPluginData
  li_iconBase64 :: "string option"

text \<open>
  \<open>SocialImageOptions\<close> is \<open>UserOpts\<close> with the layout function; \<open>'j\<close> is the type of the
  visual tree (a JSX element) that the layout returns.
\<close>

record 'j SocialImageOptions = UserOpts +
  imageStructure :: "LayoutInput \<Rightarrow> 'j"

record ImageOptions =
  io_title :: string
  io_description :: string
  io_fonts :: "SatoriFont list"
  io_cfg :: GlobalConfiguration
  io_fileData :: QuartzPluginData

text \<open>
  The built-in options, over which the options of the user are spread when the plugin is
  made; the layout \<open>defaultImage\<close> is a parameter here.
\<close>

definition defaultOptions :: "(LayoutInput \<Rightarrow> 'j) \<Rightarrow> 'j SocialImageOptions" where
  "defaultOptions defaultImage =
     \<lparr> colorScheme = lightMode, height = 630, width = 1200, excludeRoot = False,
       defaultTitle = Some ''Untitled'',
       defaultDescription = Some ''No description provided'',
       readingTimeText = Some (\<lambda>minutes. numberToString minutes @ '' min read''),
       imageStructure = defaultImage \<rparr>"

subsection \<open>The world: files, network log, console\<close>

datatype styled = StyleText string string

datatype console_line = ConsoleLog styled | ConsoleWarn styled

text \<open>
  The file system is a map from paths to the contents of files (directories are not part
  of it, so \<open>fs.mkdir\<close> changes nothing and \<open>fs.access\<close> succeeds on the paths of the map);
  \<open>requests\<close> lists the URLs that were fetched, in order.
\<close>

record world =
  files :: "string \<rightharpoonup> bytes"
  requests :: "string list"
  console :: "console_line list"

text \<open>
  What the source reads of a \<open>Response\<close>: the status text, the body as text and the body
  as bytes. The flag \<open>ok\<close> of the response is carried along; the source never reads it.
\<close>

record response =
  ok :: bool
  statusText :: string
  res_text :: string
  arrayBuffer :: bytes

text \<open>
  The services of the runtime and of the packages the plugin imports: \<open>joinSegments\<close>
  and \<open>unescapeHTML\<close> of the Quartz packages, \<open>path.join\<close>, \<open>fetch\<close> (\<open>Inl\<close> when the promise
  is rejected), the base64 encoding of a buffer, \<open>satori\<close> with the width, the height and
  the fonts of its options (\<open>Inl\<close> when it throws; the callback \<open>loadAdditionalAsset\<close> for
  the emoji is part of this service) and \<open>sharp(...).webp({quality})\<close>.
\<close>

record 'j deps =
  joinSegments :: "string list \<Rightarrow> string"
  unescapeHTML :: "string \<Rightarrow> string"
  path_join :: "string list \<Rightarrow> string"
  fetch :: "string \<Rightarrow> error + response"
  toBase64 :: "bytes \<Rightarrow> string"
  satori :: "'j \<Rightarrow> int \<Rightarrow> int \<Rightarrow> SatoriFont list \<Rightarrow> error + string"
  sharp_webp :: "string \<Rightarrow> nat \<Rightarrow> bytes"

definition QUARTZ :: string where
  "QUARTZ = ''quartz''"

definition defaultHeaderWeight :: "int list" where
  "defaultHeaderWeight = [700]"

definition defaultBodyWeight :: "int list" where
  "defaultBodyWeight = [400]"

subsection \<open>\<open>write\<close> (here \<open>write_page\<close>: \<open>write\<close> is a keyword), \<open>getFileExtension\<close>, \<open>isAbsoluteURL\<close>\<close>

definition write_page ::
  "'j deps \<Rightarrow> BuildCtx \<Rightarrow> bytes \<Rightarrow> string \<Rightarrow> string \<Rightarrow> world \<Rightarrow> (error + string) \<times> world" where
  "write_page D ctx content slg ext s =
     (let pathToPage = joinSegments D [argv_output ctx, slg @ ext]
      in (Inr pathToPage, s\<lparr>files := (files s)(pathToPage \<mapsto> content)\<rparr>))"

text \<open>
  \<open>path.match(/\.([^./?#]+)(?:[?#]|$)/)?.[1]\<close>: the leftmost dot that is followed by a
  non-empty run of characters other than \<open>. / ? #\<close> which ends at \<open>?\<close>, at \<open>#\<close> or at the end of
  the string. (A shorter run is followed by a character of the run, so only the longest
  run can match.)
\<close>

definition extChar :: "char \<Rightarrow> bool" where
  "extChar c = (c \<noteq> CHR ''.'' \<and> c \<noteq> CHR ''/'' \<and> c \<noteq> CHR ''?'' \<and> c \<noteq> CHR ''#'')"

fun getFileExtension :: "string \<Rightarrow> string option" where
  "getFileExtension [] = None"
| "getFileExtension (c # cs) =
     (if c = CHR ''.'' \<and> takeWhile extChar cs \<noteq> [] \<and>
         (case dropWhile extChar cs of [] \<Rightarrow> True | d # ds \<Rightarrow> d = CHR ''?'' \<or> d = CHR ''#'')
      then Some (takeWhile extChar cs)
      else getFileExtension cs)"

text \<open>\<open>/^https?:\/\//.test(url)\<close>: \<open>http\<close>, an optional \<open>s\<close>, then \<open>://\<close>, at the start.\<close>

definition isAbsoluteURL :: "string \<Rightarrow> bool" where
  "isAbsoluteURL url =
     (case strip_prefix ''http'' url of
        None \<Rightarrow> False
      | Some r \<Rightarrow>
         (case strip_prefix ''s'' r of
            Some r' \<Rightarrow>
              (case strip_prefix ''://'' r' of
                 Some t \<Rightarrow> True
               | None \<Rightarrow> (case strip_prefix ''://'' r of Some t \<Rightarrow> True | None \<Rightarrow> False))
          | None \<Rightarrow> (case strip_prefix ''://'' r of Some t \<Rightarrow> True | None \<Rightarrow> False)))"

subsection \<open>The font cache: \<open>fetchTtf\<close> and \<open>getSatoriFonts\<close>\<close>

text \<open>
  \<open>/url\((https:\/\/fonts.gstatic.com\/s\/.*?.ttf)\)/g\<close>, run once from the start of the
  stylesheet by \<open>exec\<close>. \<open>urlRegex_tail\<close> is the end of the pattern, \<open>.*?.ttf\<close> and the closing
  parenthesis: the lazy star first tries to go on with no further character and takes
  one more character only when that fails. \<open>urlRegex_here\<close> matches the pattern at the
  start of its argument and \<open>urlRegex_exec\<close> at the leftmost position where it matches;
  the result is the group in parentheses, \<open>match[1]\<close>.
\<close>

fun urlRegex_tail :: "string \<Rightarrow> string option" where
  "urlRegex_tail [] = None"
| "urlRegex_tail (c # cs) =
     (if dot c then
        (case strip_prefix ''ttf)'' cs of
           Some rest \<Rightarrow> Some (c # ''ttf'')
         | None \<Rightarrow> map_option (\<lambda>m. c # m) (urlRegex_tail cs))
      else None)"

definition urlRegex_here :: "string \<Rightarrow> string option" where
  "urlRegex_here s =
     (case strip_prefix ''url(https://fonts'' s of
        Some (c1 # s1) \<Rightarrow>
          (if dot c1 then
             (case strip_prefix ''gstatic'' s1 of
                Some (c2 # s2) \<Rightarrow>
                  (if dot c2 then
                     (case strip_prefix ''com/s/'' s2 of
                        Some s3 \<Rightarrow>
                          map_option (\<lambda>m. ''https://fonts'' @ [c1] @ ''gstatic'' @ [c2] @ ''com/s/'' @ m)
                            (urlRegex_tail s3)
                      | None \<Rightarrow> None)
                   else None)
              | _ \<Rightarrow> None)
           else None)
      | _ \<Rightarrow> None)"

fun urlRegex_exec :: "string \<Rightarrow> string option" where
  "urlRegex_exec [] = urlRegex_here []"
| "urlRegex_exec (c # cs) =
     (case urlRegex_here (c # cs) of
        Some m \<Rightarrow> Some m
      | None \<Rightarrow> urlRegex_exec cs)"

text \<open>The local constants of \<open>fetchTtf\<close>: the cache path and the URL of the stylesheet.\<close>

definition fontNameOf :: "string \<Rightarrow> string" where
  "fontNameOf rawFontName = replaceAll '' '' ''+'' rawFontName"

definition cachePath :: "'j deps \<Rightarrow> string \<Rightarrow> int \<Rightarrow> string" where
  "cachePath D rawFontName wght =
     (let fontName = fontNameOf rawFontName;
          cacheKey = fontName @ ''-'' @ numberToString wght;
          cacheDir = path_join D [QUARTZ, ''.quartz-cache'', ''fonts'']
      in path_join D [cacheDir, cacheKey])"

definition cssUrl :: "string \<Rightarrow> int \<Rightarrow> string" where
  "cssUrl rawFontName wght =
     ''https://fonts.googleapis.com/css2?family='' @ fontNameOf rawFontName @ '':wght@'' @
     numberToString wght"

definition fetchWarning :: "string \<Rightarrow> int \<Rightarrow> response \<Rightarrow> console_line" where
  "fetchWarning rawFontName wght cssResponse =
     ConsoleLog (StyleText ''yellow''
       (CHR 0x0A # ''Warning: Failed to fetch font '' @ rawFontName @ '' with weight '' @
        numberToString wght @ '', got '' @ statusText cssResponse))"


text \<open>
  \<open>fetchTtf\<close>. A cache entry is returned as it is, with no request. Otherwise the
  stylesheet is fetched; without a match of the pattern the warning is logged and the
  result is \<open>undefined\<close> (\<open>None\<close>); with a match the font is fetched, written to the cache
  and returned. A rejected \<open>fetch\<close> is not caught. The other calls that can be rejected
  have no error here: a file of the map can be read (\<open>fs.readFile\<close> after \<open>fs.access\<close>), a
  response has its body (\<open>text()\<close>, \<open>arrayBuffer()\<close>), and \<open>fs.mkdir\<close> and \<open>fs.writeFile\<close>
  succeed. So an error of \<open>fetchTtf\<close> is a rejected \<open>fetch\<close> in this model, and nothing is
  claimed below about the other rejections.
\<close>

definition fetchTtf ::
  "'j deps \<Rightarrow> string \<Rightarrow> int \<Rightarrow> world \<Rightarrow> (error + bytes option) \<times> world" where
  "fetchTtf D rawFontName wght s =
     (case files s (cachePath D rawFontName wght) of
        Some cached \<Rightarrow> (Inr (Some cached), s)
      | None \<Rightarrow>
         (let s1 = s\<lparr>requests := requests s @ [cssUrl rawFontName wght]\<rparr>
          in case fetch D (cssUrl rawFontName wght) of
               Inl e \<Rightarrow> (Inl e, s1)
             | Inr cssResponse \<Rightarrow>
                (case urlRegex_exec (res_text cssResponse) of
                   None \<Rightarrow>
                     (Inr None,
                      s1\<lparr>console := console s1 @ [fetchWarning rawFontName wght cssResponse]\<rparr>)
                 | Some fontUrl \<Rightarrow>
                     (if fontUrl = [] then (Inr None, s1)
                      else
                        (let s2 = s1\<lparr>requests := requests s1 @ [fontUrl]\<rparr>
                         in case fetch D fontUrl of
                              Inl e \<Rightarrow> (Inl e, s2)
                            | Inr fontResponse \<Rightarrow>
                               (let fontData = arrayBuffer fontResponse
                                in (Inr (Some fontData),
                                    s2\<lparr>files := (files s2)(cachePath D rawFontName wght \<mapsto> fontData)\<rparr>)))))))"

text \<open>
  One font family with its weights: \<open>weights.map(async (weight) => ...)\<close> awaited by
  \<open>Promise.all\<close>. An entry is \<open>null\<close> (\<open>None\<close>) when \<open>fetchTtf\<close> returned \<open>undefined\<close>.

  The source starts the requests of both families before it awaits any of them, and a
  rejected request does not stop the others. The model is sequential: the requests run
  one after the other, the header weights and then the body weights, each on the world
  that the one before left, and the first rejection ends the batch. The entries of a
  batch without a rejection are those of the source, the network being a function of the
  URL; the order of the log of requests, the requests and cache files of a batch with a
  rejection, and the error of a batch with two rejections are those of the model only.
\<close>

fun fontEntries ::
  "'j deps \<Rightarrow> string \<Rightarrow> int list \<Rightarrow> world \<Rightarrow> (error + SatoriFont option list) \<times> world" where
  "fontEntries D fontName [] s = (Inr [], s)"
| "fontEntries D fontName (wght # ws) s =
     (case fetchTtf D fontName wght s of
        (Inl e, s1) \<Rightarrow> (Inl e, s1)
      | (Inr dat, s1) \<Rightarrow>
         (case fontEntries D fontName ws s1 of
            (Inl e, s2) \<Rightarrow> (Inl e, s2)
          | (Inr rest, s2) \<Rightarrow>
             (Inr ((case dat of
                      None \<Rightarrow> None
                    | Some d \<Rightarrow> Some \<lparr>name = fontName, data = d, weight = wght, style = ''normal''\<rparr>)
                   # rest),
              s2)))"

text \<open>\<open>fonts.filter((font) => font !== null)\<close>.\<close>

fun nonNull :: "'a option list \<Rightarrow> 'a list" where
  "nonNull [] = []"
| "nonNull (None # xs) = nonNull xs"
| "nonNull (Some x # xs) = x # nonNull xs"

fun weightsOf :: "int list \<Rightarrow> FontSpecification \<Rightarrow> int list" where
  "weightsOf dflt (FontName nm) = dflt"
| "weightsOf dflt (FontSpec nm None it) = dflt"
| "weightsOf dflt (FontSpec nm (Some ws) it) = ws"

definition getSatoriFonts ::
  "'j deps \<Rightarrow> FontSpecification \<Rightarrow> FontSpecification \<Rightarrow> world \<Rightarrow>
   (error + SatoriFont list) \<times> world" where
  "getSatoriFonts D headerFont bodyFont s =
     (let headerWeights = weightsOf defaultHeaderWeight headerFont;
          bodyWeights = weightsOf defaultBodyWeight bodyFont;
          headerFontName = getFontSpecificationName headerFont;
          bodyFontName = getFontSpecificationName bodyFont
      in case fontEntries D headerFontName headerWeights s of
           (Inl e, s1) \<Rightarrow> (Inl e, s1)
         | (Inr headerFonts, s1) \<Rightarrow>
            (case fontEntries D bodyFontName bodyWeights s1 of
               (Inl e, s2) \<Rightarrow> (Inl e, s2)
             | (Inr bodyFonts, s2) \<Rightarrow> (Inr (nonNull headerFonts @ nonNull bodyFonts), s2)))"



subsection \<open>One page: \<open>generateSocialImage\<close> and \<open>processOgImage\<close>\<close>

text \<open>
  The site icon is read (a missing icon is a warning only), the layout builds the visual
  tree, \<open>satori\<close> renders it and \<open>sharp\<close> encodes it as WebP of quality 40.
  \<open>layoutInput\<close> is the object that \<open>imageStructure\<close> is called with.
\<close>

definition layoutInput ::
  "'j deps \<Rightarrow> ImageOptions \<Rightarrow> 'j SocialImageOptions \<Rightarrow> world \<Rightarrow> LayoutInput" where
  "layoutInput D imgOpts userOpts s =
     (let iconPath = joinSegments D [QUARTZ, ''static'', ''icon.png''];
          iconBase64 =
            (case files s iconPath of
               Some iconData \<Rightarrow> Some (''data:image/png;base64,'' @ toBase64 D iconData)
             | None \<Rightarrow> None)
      in \<lparr> li_cfg = io_cfg imgOpts, li_userOpts = UserOpts.truncate userOpts,
           li_title = io_title imgOpts, li_description = io_description imgOpts,
           li_fonts = io_fonts imgOpts, li_fileData = io_fileData imgOpts,
           li_iconBase64 = iconBase64 \<rparr>)"

definition generateSocialImage ::
  "'j deps \<Rightarrow> ImageOptions \<Rightarrow> 'j SocialImageOptions \<Rightarrow> world \<Rightarrow> (error + bytes) \<times> world" where
  "generateSocialImage D imgOpts userOpts s =
     (let iconPath = joinSegments D [QUARTZ, ''static'', ''icon.png''];
          s1 =
            (case files s iconPath of
               Some iconData \<Rightarrow> s
             | None \<Rightarrow>
                 s\<lparr>console := console s @
                   [ConsoleWarn (StyleText ''yellow'' (''Warning: Could not find icon at '' @ iconPath))]\<rparr>);
          imageComponent = imageStructure userOpts (layoutInput D imgOpts userOpts s)
      in case satori D imageComponent (width userOpts) (height userOpts) (io_fonts imgOpts) of
           Inl e \<Rightarrow> (Inl e, s1)
         | Inr svg \<Rightarrow> (Inr (sharp_webp D svg 40), s1))"

text \<open>
  The local constants \<open>title\<close> and \<open>description\<close> of \<open>processOgImage\<close>:
  \<open>(frontmatter?.title ?? fullOptions.defaultTitle ?? "") + titleSuffix\<close> and
  \<open>frontmatter?.socialDescription ?? frontmatter?.description ??
   unescapeHTML(fileData.description?.trim() ?? fullOptions.defaultDescription ?? "")\<close>.
\<close>

definition ogTitle :: "GlobalConfiguration \<Rightarrow> QuartzPluginData \<Rightarrow> 'j SocialImageOptions \<Rightarrow> string" where
  "ogTitle cfg fileData fullOptions =
     (let titleSuffix = (case pageTitleSuffix cfg of None \<Rightarrow> '''' | Some sfx \<Rightarrow> sfx)
      in (case Option.bind (frontmatter fileData) fm_title of
            Some t \<Rightarrow> t
          | None \<Rightarrow> (case defaultTitle fullOptions of Some t \<Rightarrow> t | None \<Rightarrow> ''''))
         @ titleSuffix)"

definition ogDescription :: "'j deps \<Rightarrow> QuartzPluginData \<Rightarrow> 'j SocialImageOptions \<Rightarrow> string" where
  "ogDescription D fileData fullOptions =
     (case Option.bind (frontmatter fileData) socialDescription of
        Some d \<Rightarrow> d
      | None \<Rightarrow>
         (case Option.bind (frontmatter fileData) fm_description of
            Some d \<Rightarrow> d
          | None \<Rightarrow>
             unescapeHTML D
               (case pd_description fileData of
                  Some d \<Rightarrow> trim d
                | None \<Rightarrow> (case defaultDescription fullOptions of Some d \<Rightarrow> d | None \<Rightarrow> ''''))))"

text \<open>The first argument of the call of \<open>generateSocialImage\<close> in \<open>processOgImage\<close>.\<close>

definition imageOptions ::
  "'j deps \<Rightarrow> BuildCtx \<Rightarrow> QuartzPluginData \<Rightarrow> SatoriFont list \<Rightarrow> 'j SocialImageOptions \<Rightarrow>
   ImageOptions" where
  "imageOptions D ctx fileData fonts fullOptions =
     (let cfg = configuration ctx
      in \<lparr> io_title = ogTitle cfg fileData fullOptions,
           io_description = ogDescription D fileData fullOptions,
           io_fonts = fonts, io_cfg = cfg, io_fileData = fileData \<rparr>)"

definition processOgImage ::
  "'j deps \<Rightarrow> BuildCtx \<Rightarrow> QuartzPluginData \<Rightarrow> SatoriFont list \<Rightarrow> 'j SocialImageOptions \<Rightarrow>
   world \<Rightarrow> (error + string) \<times> world" where
  "processOgImage D ctx fileData fonts fullOptions s =
     (case generateSocialImage D (imageOptions D ctx fileData fonts fullOptions) fullOptions s of
           (Inl e, s1) \<Rightarrow> (Inl e, s1)
         | (Inr stream, s1) \<Rightarrow>
             write_page D ctx stream (templateString (slug fileData) @ ''-og-image'') ''.webp'' s1)"

subsection \<open>The emitters\<close>

text \<open>
  The test \<open>data.frontmatter?.socialImage !== undefined\<close> of both loops.
\<close>

definition declaresSocialImage :: "QuartzPluginData \<Rightarrow> bool" where
  "declaresSocialImage dat =
     (case Option.bind (frontmatter dat) socialImage of None \<Rightarrow> False | Some img \<Rightarrow> True)"

text \<open>
  The loop of \<open>emit\<close> over the content, a list of pairs of a tree and the data of a file.
  The result lists the paths that the generator yields; an error ends the loop and keeps
  the world as the pages before it left it.
\<close>

fun emitPages ::
  "'j deps \<Rightarrow> BuildCtx \<Rightarrow> SatoriFont list \<Rightarrow> 'j SocialImageOptions \<Rightarrow>
   ('t \<times> QuartzPluginData) list \<Rightarrow> world \<Rightarrow> (error + string list) \<times> world" where
  "emitPages D ctx fonts fullOptions [] s = (Inr [], s)"
| "emitPages D ctx fonts fullOptions ((tree, dat) # content) s =
     (if declaresSocialImage dat then emitPages D ctx fonts fullOptions content s
      else
        (case processOgImage D ctx dat fonts fullOptions s of
           (Inl e, s1) \<Rightarrow> (Inl e, s1)
         | (Inr p, s1) \<Rightarrow>
            (case emitPages D ctx fonts fullOptions content s1 of
               (Inl e, s2) \<Rightarrow> (Inl e, s2)
             | (Inr ps, s2) \<Rightarrow> (Inr (p # ps), s2))))"

definition emit ::
  "'j deps \<Rightarrow> 'j SocialImageOptions \<Rightarrow> BuildCtx \<Rightarrow> ('t \<times> QuartzPluginData) list \<Rightarrow> world \<Rightarrow>
   (error + string list) \<times> world" where
  "emit D fullOptions ctx content s =
     (let cfg = configuration ctx;
          headerFont = header (typography cfg);
          bodyFont = body (typography cfg)
      in case getSatoriFonts D headerFont bodyFont s of
           (Inl e, s1) \<Rightarrow> (Inl e, s1)
         | (Inr fonts, s1) \<Rightarrow> emitPages D ctx fonts fullOptions content s1)"

datatype ChangeType = add | change | delete

record ChangeEvent =
  ev_type :: ChangeType
  ev_file :: "QuartzPluginData option"

fun partialEmitPages ::
  "'j deps \<Rightarrow> BuildCtx \<Rightarrow> SatoriFont list \<Rightarrow> 'j SocialImageOptions \<Rightarrow>
   ChangeEvent list \<Rightarrow> world \<Rightarrow> (error + string list) \<times> world" where
  "partialEmitPages D ctx fonts fullOptions [] s = (Inr [], s)"
| "partialEmitPages D ctx fonts fullOptions (changeEvent # changeEvents) s =
     (case ev_file changeEvent of
        None \<Rightarrow> partialEmitPages D ctx fonts fullOptions changeEvents s
      | Some dat \<Rightarrow>
         (if declaresSocialImage dat then partialEmitPages D ctx fonts fullOptions changeEvents s
          else if ev_type changeEvent = add \<or> ev_type changeEvent = change then
            (case processOgImage D ctx dat fonts fullOptions s of
               (Inl e, s1) \<Rightarrow> (Inl e, s1)
             | (Inr p, s1) \<Rightarrow>
                (case partialEmitPages D ctx fonts fullOptions changeEvents s1 of
                   (Inl e, s2) \<Rightarrow> (Inl e, s2)
                 | (Inr ps, s2) \<Rightarrow> (Inr (p # ps), s2)))
          else partialEmitPages D ctx fonts fullOptions changeEvents s))"

text \<open>
  A change event is passed over for the image of its page when it has a file and the file
  declares a social image.
\<close>

definition eventDeclares :: "ChangeEvent \<Rightarrow> bool" where
  "eventDeclares changeEvent =
     (case ev_file changeEvent of None \<Rightarrow> False | Some dat \<Rightarrow> declaresSocialImage dat)"

definition partialEmit ::
  "'j deps \<Rightarrow> 'j SocialImageOptions \<Rightarrow> BuildCtx \<Rightarrow> ChangeEvent list \<Rightarrow> world \<Rightarrow>
   (error + string list) \<times> world" where
  "partialEmit D fullOptions ctx changeEvents s =
     (let cfg = configuration ctx;
          headerFont = header (typography cfg);
          bodyFont = body (typography cfg)
      in case getSatoriFonts D headerFont bodyFont s of
           (Inl e, s1) \<Rightarrow> (Inl e, s1)
         | (Inr fonts, s1) \<Rightarrow> partialEmitPages D ctx fonts fullOptions changeEvents s1)"

subsection \<open>The meta tags: \<open>externalResources\<close>\<close>

datatype meta = MetaProperty string string | MetaName string string

text \<open>
  The local variables of the function in \<open>additionalHead\<close>. \<open>userDefinedOgImagePath\<close> is
  the frontmatter's \<open>socialImage\<close>, rewritten under \<open>if (userDefinedOgImagePath)\<close>, that is
  when it is a non-empty string.
\<close>

definition userDefinedOgImagePath :: "string \<Rightarrow> QuartzPluginData \<Rightarrow> string option" where
  "userDefinedOgImagePath base pageData =
     (case Option.bind (frontmatter pageData) socialImage of
        None \<Rightarrow> None
      | Some img \<Rightarrow>
         (if img = [] then Some img
          else Some (if isAbsoluteURL img then img else ''https://'' @ base @ ''/static/'' @ img)))"

definition generatedOgImagePath :: "string \<Rightarrow> QuartzPluginData \<Rightarrow> string option" where
  "generatedOgImagePath base pageData =
     (let isRealFile = (case filePath pageData of None \<Rightarrow> False | Some fp \<Rightarrow> True)
      in if isRealFile
         then Some (''https://'' @ base @ ''/'' @ templateString (slug pageData) @ ''-og-image.webp'')
         else None)"

definition defaultOgImagePath :: "string \<Rightarrow> string" where
  "defaultOgImagePath base = ''https://'' @ base @ ''/static/og-image.png''"

definition ogImagePath :: "string \<Rightarrow> QuartzPluginData \<Rightarrow> string" where
  "ogImagePath base pageData =
     (case userDefinedOgImagePath base pageData of
        Some p \<Rightarrow> p
      | None \<Rightarrow>
         (case generatedOgImagePath base pageData of
            Some p \<Rightarrow> p
          | None \<Rightarrow> defaultOgImagePath base))"

text \<open>
  The elements of the fragment, in order. The two tags of the size stand under
  \<open>!userDefinedOgImagePath\<close>, which holds of \<open>undefined\<close> and of the empty string.
\<close>

definition additionalHead :: "'j SocialImageOptions \<Rightarrow> string \<Rightarrow> QuartzPluginData \<Rightarrow> meta list" where
  "additionalHead fullOptions base pageData =
     (let ogImageMimeType =
            ''image/'' @ (case getFileExtension (ogImagePath base pageData) of
                           Some ext \<Rightarrow> ext
                         | None \<Rightarrow> ''png'')
      in (if (case userDefinedOgImagePath base pageData of None \<Rightarrow> True | Some p \<Rightarrow> p = [])
          then [MetaProperty ''og:image:width'' (numberToString (width fullOptions)),
                MetaProperty ''og:image:height'' (numberToString (height fullOptions))]
          else [])
         @ [MetaProperty ''og:image'' (ogImagePath base pageData),
            MetaProperty ''og:image:url'' (ogImagePath base pageData),
            MetaName ''twitter:image'' (ogImagePath base pageData),
            MetaProperty ''og:image:type'' ogImageMimeType])"

text \<open>
  \<open>externalResources\<close>: nothing (\<open>{}\<close>) when the base URL is \<open>undefined\<close> or empty, otherwise
  the one function of \<open>additionalHead\<close>.
\<close>

definition externalResources ::
  "'j SocialImageOptions \<Rightarrow> BuildCtx \<Rightarrow> (QuartzPluginData \<Rightarrow> meta list) list option" where
  "externalResources fullOptions ctx =
     (case baseUrl (configuration ctx) of
        None \<Rightarrow> None
      | Some base \<Rightarrow> (if base = [] then None else Some [additionalHead fullOptions base]))"

subsection \<open>Sample inputs\<close>

text \<open>
  Modelled from the spec: \<open>unescapeHTML\<close> of the Quartz utilities package, which is not among
  the sources. The spec says of the excerpt only that it is "HTML-unescaped"; here the
  entities of the five characters \<open>& < > " '\<close> are replaced by the characters. It is the
  \<open>unescapeHTML\<close> of the sample services only.
\<close>

definition unescapeEntities :: "string \<Rightarrow> string" where
  "unescapeEntities html =
     replaceAll ''&#039;'' [CHR 0x27]
       (replaceAll ''&quot;'' [CHR 0x22]
          (replaceAll ''&gt;'' ''>'' (replaceAll ''&lt;'' ''<'' (replaceAll ''&amp;'' ''&'' html))))"

text \<open>Paths joined with a slash, for \<open>joinSegments\<close> and \<open>path.join\<close> of the sample services.\<close>

fun joinWithSlash :: "string list \<Rightarrow> string" where
  "joinWithSlash [] = []"
| "joinWithSlash [seg] = seg"
| "joinWithSlash (seg # segs) = seg @ ''/'' @ joinWithSlash segs"

text \<open>
  A network that serves the stylesheet and the font of Inter 700, answers the
  stylesheet request of Open Sans 400 with an error page and rejects every other request.
\<close>

definition sampleFetch :: "string \<Rightarrow> error + response" where
  "sampleFetch url =
     (if url = ''https://fonts.googleapis.com/css2?family=Inter:wght@700'' then
        Inr \<lparr> ok = True, statusText = ''OK'',
              res_text = ''@font-face { src: url(https://fonts.gstatic.com/s/inter/v1/a.ttf) format(x); }'',
              arrayBuffer = [] \<rparr>
      else if url = ''https://fonts.gstatic.com/s/inter/v1/a.ttf'' then
        Inr \<lparr> ok = True, statusText = ''OK'', res_text = [], arrayBuffer = [0, 1, 0, 0] \<rparr>
      else if url = ''https://fonts.googleapis.com/css2?family=Open+Sans:wght@400'' then
        Inr \<lparr> ok = False, statusText = ''Bad Request'', res_text = ''<html>400</html>'',
              arrayBuffer = [] \<rparr>
      else Inl (FetchRejected url))"

definition sampleDeps :: "string deps" where
  "sampleDeps =
     \<lparr> joinSegments = joinWithSlash, unescapeHTML = unescapeEntities, path_join = joinWithSlash,
       fetch = sampleFetch, toBase64 = (\<lambda>b. ''aWNvbg==''),
       satori = (\<lambda>tree w h fonts. Inr (''<svg>'' @ tree @ ''</svg>'')),
       sharp_webp = (\<lambda>svg quality. [0x52, 0x49, 0x46, 0x46]) \<rparr>"

text \<open>The sample services with the network down: every request is rejected.\<close>

definition offlineDeps :: "string deps" where
  "offlineDeps = sampleDeps\<lparr>fetch := (\<lambda>url. Inl (FetchRejected url))\<rparr>"



definition sampleOptions :: "string SocialImageOptions" where
  "sampleOptions = defaultOptions (\<lambda>inp. li_title inp @ '': '' @ li_description inp)"

definition sampleCfg :: GlobalConfiguration where
  "sampleCfg =
     \<lparr> baseUrl = Some ''example.com'', pageTitleSuffix = Some '' - Site'',
       typography = \<lparr> header = FontName ''Inter'', body = FontName ''Open Sans'' \<rparr> \<rparr>"

definition sampleCtx :: BuildCtx where
  "sampleCtx = \<lparr> argv_output = ''public'', configuration = sampleCfg \<rparr>"

definition emptyWorld :: world where
  "emptyWorld = \<lparr> files = Map.empty, requests = [], console = [] \<rparr>"

text \<open>
  Pages: one with no frontmatter at all, and one whose frontmatter gives a social image.
\<close>

definition barePage :: QuartzPluginData where
  "barePage =
     \<lparr> slug = Some ''a/b'', frontmatter = None, pd_description = None, pd_text = None,
       filePath = Some ''content/a/b.md'' \<rparr>"

definition pageWithImage :: "string \<Rightarrow> QuartzPluginData" where
  "pageWithImage img =
     \<lparr> slug = Some ''a/b'',
       frontmatter = Some \<lparr> fm_title = Some ''T'', fm_description = None, socialDescription = None,
                            socialImage = Some img, tags = None \<rparr>,
       pd_description = Some '' excerpt '', pd_text = None, filePath = Some ''content/a/b.md'' \<rparr>"


section \<open>The title and the description of a page\<close>

text \<open>
  C6. For every page whose frontmatter has no title (or that has no frontmatter), the
  title that the layout function receives is the configured \<open>defaultTitle\<close> followed by
  the \<open>pageTitleSuffix\<close> of the site; each of the two is the empty string when it is not
  set.
\<close>

theorem untitled_page_title:
  assumes "Option.bind (frontmatter fileData) fm_title = None"
  shows "li_title (layoutInput D (imageOptions D ctx fileData fonts fullOptions) fullOptions s) =
           (case defaultTitle fullOptions of Some t \<Rightarrow> t | None \<Rightarrow> '''') @
           (case pageTitleSuffix (configuration ctx) of Some sfx \<Rightarrow> sfx | None \<Rightarrow> '''')"
  using assms by (simp add: layoutInput_def imageOptions_def ogTitle_def Let_def)

theorem untitled_page_title_witness:
  "Option.bind (frontmatter barePage) fm_title = None \<and>
   li_title (layoutInput sampleDeps (imageOptions sampleDeps sampleCtx barePage [] sampleOptions)
              sampleOptions emptyWorld) = ''Untitled - Site''"
proof -
  have h: "Option.bind (frontmatter barePage) fm_title = None"
    by (simp add: barePage_def)
  show ?thesis
    using h untitled_page_title [OF h, of sampleDeps sampleCtx "[]" sampleOptions emptyWorld]
    by (simp add: sampleOptions_def defaultOptions_def sampleCtx_def sampleCfg_def)
qed

text \<open>
  C5 (amended). The description that the layout function receives is the frontmatter's
  \<open>socialDescription\<close> when it is defined; else the frontmatter's \<open>description\<close> when it is
  defined; else the excerpt of the page, trimmed and then HTML-unescaped, when it is
  defined; else the configured \<open>defaultDescription\<close> (the empty string when none is set),
  which is HTML-unescaped as well.
\<close>

theorem description_priority:
  "li_description (layoutInput D (imageOptions D ctx fileData fonts fullOptions) fullOptions s) =
     (case Option.bind (frontmatter fileData) socialDescription of
        Some d \<Rightarrow> d
      | None \<Rightarrow>
         (case Option.bind (frontmatter fileData) fm_description of
            Some d \<Rightarrow> d
          | None \<Rightarrow>
             (case pd_description fileData of
                Some excerpt \<Rightarrow> unescapeHTML D (trim excerpt)
              | None \<Rightarrow>
                 unescapeHTML D
                   (case defaultDescription fullOptions of Some d \<Rightarrow> d | None \<Rightarrow> ''''))))"
  by (simp add: layoutInput_def imageOptions_def ogDescription_def Let_def split: option.splits)

text \<open>
  The claim as stated ends the chain with the configured default itself. With the default
  \<open>Q &amp; A\<close> and a page that has no description of any kind, the layout receives \<open>Q & A\<close>.
\<close>

theorem description_default_counterexample:
  "Option.bind (frontmatter barePage) socialDescription = None \<and>
   Option.bind (frontmatter barePage) fm_description = None \<and>
   pd_description barePage = None \<and>
   defaultDescription (sampleOptions\<lparr>defaultDescription := Some ''Q &amp; A''\<rparr>) = Some ''Q &amp; A'' \<and>
   li_description
     (layoutInput sampleDeps
        (imageOptions sampleDeps sampleCtx barePage []
           (sampleOptions\<lparr>defaultDescription := Some ''Q &amp; A''\<rparr>))
        (sampleOptions\<lparr>defaultDescription := Some ''Q &amp; A''\<rparr>) emptyWorld) = ''Q & A'' \<and>
   ''Q & A'' \<noteq> ''Q &amp; A''"
  by (simp add: layoutInput_def imageOptions_def ogDescription_def barePage_def sampleDeps_def
      unescapeEntities_def Let_def)

section \<open>The meta tags\<close>

lemma strip_prefix_append: "strip_prefix p (p @ r) = Some r"
  by (induction p) auto

lemma strip_prefix_Some: "strip_prefix p s = Some r \<Longrightarrow> s = p @ r"
  by (induction p s rule: strip_prefix.induct) (auto split: if_splits)

lemma isAbsoluteURL_iff:
  "isAbsoluteURL url \<longleftrightarrow> (\<exists>rest. url = ''http://'' @ rest \<or> url = ''https://'' @ rest)"
proof
  assume "isAbsoluteURL url"
  then show "\<exists>rest. url = ''http://'' @ rest \<or> url = ''https://'' @ rest"
    unfolding isAbsoluteURL_def
    by (auto split: option.splits dest!: strip_prefix_Some)
next
  assume "\<exists>rest. url = ''http://'' @ rest \<or> url = ''https://'' @ rest"
  then obtain rest where "url = ''http://'' @ rest \<or> url = ''https://'' @ rest"
    by blast
  then show "isAbsoluteURL url"
    unfolding isAbsoluteURL_def by (auto split: option.splits)
qed

text \<open>
  The priority of the image URL where the frontmatter gives no social image or a non-empty
  one: the reference of the user, made absolute; else the generated path of a page with a
  file path; else the default path of the site.
\<close>

lemma ogImagePath_priority:
  assumes "Option.bind (frontmatter pageData) socialImage \<noteq> Some []"
  shows "ogImagePath base pageData =
           (case Option.bind (frontmatter pageData) socialImage of
              Some img \<Rightarrow> if isAbsoluteURL img then img else ''https://'' @ base @ ''/static/'' @ img
            | None \<Rightarrow>
               (case filePath pageData of
                  Some fp \<Rightarrow> ''https://'' @ base @ ''/'' @ templateString (slug pageData) @ ''-og-image.webp''
                | None \<Rightarrow> ''https://'' @ base @ ''/static/og-image.png''))"
  using assms
  by (auto simp: ogImagePath_def userDefinedOgImagePath_def generatedOgImagePath_def
      defaultOgImagePath_def split: option.splits)

text \<open>
  C2. The claim gives the image URL by the priority above for every page. The injector
  follows it but for one case: a frontmatter whose \<open>socialImage\<close> is the empty string. The
  test \<open>if (userDefinedOgImagePath)\<close> passes over the empty string, and \<open>??\<close> then keeps it,
  since it is not \<open>undefined\<close>: the tags \<open>og:image\<close>, \<open>og:image:url\<close> and \<open>twitter:image\<close> get
  the empty string, neither the reference made absolute nor the generated path of this
  page, which has a file path.
\<close>

theorem empty_social_image_url:
  "filePath (pageWithImage []) = Some ''content/a/b.md'' \<and>
   ogImagePath ''example.com'' (pageWithImage []) = [] \<and>
   additionalHead sampleOptions ''example.com'' (pageWithImage []) =
     [MetaProperty ''og:image:width'' ''1200'', MetaProperty ''og:image:height'' ''630'',
      MetaProperty ''og:image'' [], MetaProperty ''og:image:url'' [],
      MetaName ''twitter:image'' [], MetaProperty ''og:image:type'' ''image/png'']"
  by (simp add: additionalHead_def ogImagePath_def userDefinedOgImagePath_def pageWithImage_def
      sampleOptions_def defaultOptions_def numberToString_def digitChar_def)

text \<open>
  C7. The tags \<open>og:image:width\<close> and \<open>og:image:height\<close> are among the tags of a page exactly
  when the page has no image reference of the user: the frontmatter gives no \<open>socialImage\<close>,
  or gives the empty string, which refers to no image (the test of the source is
  \<open>!userDefinedOgImagePath\<close>).
\<close>

theorem size_tags_iff_no_user_image:
  "((\<exists>w. MetaProperty ''og:image:width'' w \<in> set (additionalHead fullOptions base pageData)) \<longleftrightarrow>
      (case Option.bind (frontmatter pageData) socialImage of None \<Rightarrow> True | Some img \<Rightarrow> img = [])) \<and>
   ((\<exists>h. MetaProperty ''og:image:height'' h \<in> set (additionalHead fullOptions base pageData)) \<longleftrightarrow>
      (case Option.bind (frontmatter pageData) socialImage of None \<Rightarrow> True | Some img \<Rightarrow> img = []))"
  by (auto simp: additionalHead_def userDefinedOgImagePath_def split: option.splits)

text \<open>
  C10. \<open>isAbsoluteURL\<close> holds exactly of the strings that begin with \<open>http://\<close> or \<open>https://\<close>.
  A reference of the user (a non-empty \<open>socialImage\<close>) that begins so is the image URL as
  it is; every other one, a protocol-relative URL or one of another scheme included, is
  put behind \<open>https://\<close>, the base URL and \<open>/static/\<close>.
\<close>

theorem user_image_absolute_or_static:
  assumes "Option.bind (frontmatter pageData) socialImage = Some img" and "img \<noteq> []"
  shows "(isAbsoluteURL img \<longleftrightarrow> (\<exists>rest. img = ''http://'' @ rest \<or> img = ''https://'' @ rest)) \<and>
         ogImagePath base pageData =
           (if (\<exists>rest. img = ''http://'' @ rest \<or> img = ''https://'' @ rest) then img
            else ''https://'' @ base @ ''/static/'' @ img)"
proof -
  have abs: "isAbsoluteURL img \<longleftrightarrow> (\<exists>rest. img = ''http://'' @ rest \<or> img = ''https://'' @ rest)"
    by (rule isAbsoluteURL_iff)
  have "ogImagePath base pageData =
          (if isAbsoluteURL img then img else ''https://'' @ base @ ''/static/'' @ img)"
    using assms by (simp add: ogImagePath_def userDefinedOgImagePath_def)
  with abs show ?thesis by simp
qed

theorem user_image_absolute_or_static_witness:
  "Option.bind (frontmatter (pageWithImage ''//cdn.example.org/x.png'')) socialImage =
     Some ''//cdn.example.org/x.png'' \<and>
   ''//cdn.example.org/x.png'' \<noteq> [] \<and>
   \<not> isAbsoluteURL ''//cdn.example.org/x.png'' \<and>
   ogImagePath ''example.com'' (pageWithImage ''//cdn.example.org/x.png'') =
     ''https://example.com/static///cdn.example.org/x.png''"
proof -
  have h1: "Option.bind (frontmatter (pageWithImage ''//cdn.example.org/x.png'')) socialImage =
              Some ''//cdn.example.org/x.png''"
    by (simp add: pageWithImage_def)
  have h2: "''//cdn.example.org/x.png'' \<noteq> []"
    by simp
  show ?thesis
    using h1 user_image_absolute_or_static [OF h1 h2, of "''example.com''"]
    by simp
qed

section \<open>The emitters skip the pages with an image of their own\<close>

lemma emitPages_skip [simp]:
  "declaresSocialImage dat \<Longrightarrow>
   emitPages D ctx fonts fullOptions ((tree, dat) # content) s =
   emitPages D ctx fonts fullOptions content s"
  by simp

lemma emitPages_only_declared:
  "emitPages D ctx fonts fullOptions (filter (\<lambda>(tree, dat). declaresSocialImage dat) content) s =
   (Inr [], s)"
  by (induction content) auto

lemma emitPages_filter:
  "emitPages D ctx fonts fullOptions content s =
   emitPages D ctx fonts fullOptions (filter (\<lambda>(tree, dat). \<not> declaresSocialImage dat) content) s"
  by (induction content arbitrary: s) (auto split: prod.splits sum.splits)


lemma partialEmitPages_only_declared:
  "partialEmitPages D ctx fonts fullOptions (filter eventDeclares changeEvents) s = (Inr [], s)"
  by (induction changeEvents) (auto simp: eventDeclares_def split: option.splits)

lemma partialEmitPages_filter:
  "partialEmitPages D ctx fonts fullOptions changeEvents s =
   partialEmitPages D ctx fonts fullOptions (filter (\<lambda>ev. \<not> eventDeclares ev) changeEvents) s"
  by (induction changeEvents arbitrary: s)
     (auto simp: eventDeclares_def split: option.splits prod.splits sum.splits)

text \<open>
  C1. A page declares a custom social image when \<open>socialImage\<close> of its frontmatter is
  defined. Both emitters pass over such a page: a run over pages (change events) that all
  declare an image yields no path, raises no error and leaves the world, and so every
  file, as it was; and in any run the pages that declare an image can be left out of the
  input without a change of the paths yielded, of the error or of the world that results.
\<close>

theorem custom_image_pages_skipped:
  "emitPages D ctx fonts fullOptions
     (filter (\<lambda>(tree, dat). declaresSocialImage dat) content) s = (Inr [], s) \<and>
   partialEmitPages D ctx fonts fullOptions (filter eventDeclares changeEvents) s = (Inr [], s) \<and>
   emit D fullOptions ctx content s =
     emit D fullOptions ctx (filter (\<lambda>(tree, dat). \<not> declaresSocialImage dat) content) s \<and>
   partialEmit D fullOptions ctx changeEvents s =
     partialEmit D fullOptions ctx (filter (\<lambda>ev. \<not> eventDeclares ev) changeEvents) s"
proof -
  have "emit D fullOptions ctx content s =
          emit D fullOptions ctx (filter (\<lambda>(tree, dat). \<not> declaresSocialImage dat) content) s"
    unfolding emit_def Let_def
    by (simp split: prod.splits sum.splits add: emitPages_filter [symmetric])
  moreover have "partialEmit D fullOptions ctx changeEvents s =
          partialEmit D fullOptions ctx (filter (\<lambda>ev. \<not> eventDeclares ev) changeEvents) s"
    unfolding partialEmit_def Let_def
    by (simp split: prod.splits sum.splits add: partialEmitPages_filter [symmetric])
  ultimately show ?thesis
    by (simp add: emitPages_only_declared partialEmitPages_only_declared)
qed




section \<open>The path of the generated image\<close>







section \<open>The font cache\<close>

lemma sample_cssUrl_Inter: "cssUrl ''Inter'' 700 = ''https://fonts.googleapis.com/css2?family=Inter:wght@700''"
  by (simp add: cssUrl_def fontNameOf_def numberToString_def digitChar_def)

lemma sample_cssUrl_OpenSans:
  "cssUrl ''Open Sans'' 400 = ''https://fonts.googleapis.com/css2?family=Open+Sans:wght@400''"
  by (simp add: cssUrl_def fontNameOf_def numberToString_def digitChar_def)

lemma sample_cachePath_Inter: "cachePath sampleDeps ''Inter'' 700 = ''quartz/.quartz-cache/fonts/Inter-700''"
  by (simp add: cachePath_def fontNameOf_def numberToString_def digitChar_def sampleDeps_def QUARTZ_def)

lemma sample_cachePath_OpenSans:
  "cachePath sampleDeps ''Open Sans'' 400 = ''quartz/.quartz-cache/fonts/Open+Sans-400''"
  by (simp add: cachePath_def fontNameOf_def numberToString_def digitChar_def sampleDeps_def QUARTZ_def)

lemma sample_fetch_field: "fetch sampleDeps = sampleFetch"
  by (simp add: sampleDeps_def)

lemma sample_css_match:
  "urlRegex_exec ''@font-face { src: url(https://fonts.gstatic.com/s/inter/v1/a.ttf) format(x); }'' =
     Some ''https://fonts.gstatic.com/s/inter/v1/a.ttf''"
  by (simp add: urlRegex_here_def dot_def)

lemma sample_css_nomatch: "urlRegex_exec ''<html>400</html>'' = None"
  by (simp add: urlRegex_here_def dot_def)

lemma sample_fetch_Inter:
  "fetchTtf sampleDeps ''Inter'' 700 emptyWorld =
     (Inr (Some [0, 1, 0, 0]),
      \<lparr> files = [''quartz/.quartz-cache/fonts/Inter-700'' \<mapsto> [0, 1, 0, 0]],
        requests = [''https://fonts.googleapis.com/css2?family=Inter:wght@700'',
                    ''https://fonts.gstatic.com/s/inter/v1/a.ttf''],
        console = [] \<rparr>)"
  by (simp add: fetchTtf_def sample_cssUrl_Inter sample_cachePath_Inter sample_css_match
      emptyWorld_def sample_fetch_field sampleFetch_def Let_def del: urlRegex_exec.simps)

lemma sample_fetch_OpenSans:
  "fetchTtf sampleDeps ''Open Sans'' 400 emptyWorld =
     (Inr None,
      \<lparr> files = Map.empty,
        requests = [''https://fonts.googleapis.com/css2?family=Open+Sans:wght@400''],
        console = [ConsoleLog (StyleText ''yellow''
          (CHR 0x0A # ''Warning: Failed to fetch font Open Sans with weight 400, got Bad Request''))] \<rparr>)"
  by (simp add: fetchTtf_def sample_cssUrl_OpenSans sample_cachePath_OpenSans sample_css_nomatch
      emptyWorld_def sample_fetch_field sampleFetch_def Let_def fetchWarning_def
      numberToString_def digitChar_def del: urlRegex_exec.simps)

lemma sample_fetch_OpenSans_again:
  "fetchTtf sampleDeps ''Open Sans'' 400
     \<lparr> files = Map.empty,
       requests = [''https://fonts.googleapis.com/css2?family=Open+Sans:wght@400''],
       console = [ConsoleLog (StyleText ''yellow''
         (CHR 0x0A # ''Warning: Failed to fetch font Open Sans with weight 400, got Bad Request''))] \<rparr> =
     (Inr None,
      \<lparr> files = Map.empty,
        requests = [''https://fonts.googleapis.com/css2?family=Open+Sans:wght@400'',
                    ''https://fonts.googleapis.com/css2?family=Open+Sans:wght@400''],
        console = [ConsoleLog (StyleText ''yellow''
          (CHR 0x0A # ''Warning: Failed to fetch font Open Sans with weight 400, got Bad Request'')),
                   ConsoleLog (StyleText ''yellow''
          (CHR 0x0A # ''Warning: Failed to fetch font Open Sans with weight 400, got Bad Request''))] \<rparr>)"
  by (simp add: fetchTtf_def sample_cssUrl_OpenSans sample_cachePath_OpenSans sample_css_nomatch
      sample_fetch_field sampleFetch_def Let_def fetchWarning_def
      numberToString_def digitChar_def del: urlRegex_exec.simps)

text \<open>
  C3 (amended). When a resolution of a family and a weight returns font data, from the
  cache or from the network, the next resolution of the same pair returns the same bytes
  and leaves the world as it is: no request is added to the log, whatever the network
  would answer.
\<close>

theorem second_resolution_from_cache:
  assumes "fetchTtf D rawFontName wght s = (Inr (Some fontData), s1)"
    and "path_join D' = path_join D"
  shows "fetchTtf D' rawFontName wght s1 = (Inr (Some fontData), s1) \<and>
         requests (snd (fetchTtf D' rawFontName wght s1)) = requests s1"
proof -
  have c: "cachePath D' rawFontName wght = cachePath D rawFontName wght"
    using assms(2) by (simp add: cachePath_def)
  have "files s1 (cachePath D rawFontName wght) = Some fontData"
    using assms(1)
    by (auto simp: fetchTtf_def Let_def split: option.splits sum.splits if_splits)
  then have "fetchTtf D' rawFontName wght s1 = (Inr (Some fontData), s1)"
    using c by (simp add: fetchTtf_def)
  then show ?thesis by simp
qed

theorem second_resolution_from_cache_witness:
  "fst (fetchTtf sampleDeps ''Inter'' 700 emptyWorld) = Inr (Some [0, 1, 0, 0]) \<and>
   path_join offlineDeps = path_join sampleDeps \<and>
   fetchTtf offlineDeps ''Inter'' 700 (snd (fetchTtf sampleDeps ''Inter'' 700 emptyWorld)) =
     (Inr (Some [0, 1, 0, 0]), snd (fetchTtf sampleDeps ''Inter'' 700 emptyWorld)) \<and>
   requests (snd (fetchTtf sampleDeps ''Inter'' 700 emptyWorld)) =
     [''https://fonts.googleapis.com/css2?family=Inter:wght@700'',
      ''https://fonts.gstatic.com/s/inter/v1/a.ttf'']"
proof -
  have h2: "path_join offlineDeps = path_join sampleDeps"
    by (simp add: offlineDeps_def)
  show ?thesis
    using second_resolution_from_cache [OF sample_fetch_Inter h2]
    by (simp add: sample_fetch_Inter h2)
qed

text \<open>
  The claim as stated speaks of every pair. Open Sans 400 is answered with an error page
  by the sample network: the first resolution logs the warning and returns \<open>undefined\<close>,
  nothing is written to the cache, and the second resolution requests the stylesheet
  again.
\<close>

theorem second_resolution_counterexample:
  "fst (fetchTtf sampleDeps ''Open Sans'' 400 emptyWorld) = Inr None \<and>
   requests (snd (fetchTtf sampleDeps ''Open Sans'' 400 emptyWorld)) =
     [''https://fonts.googleapis.com/css2?family=Open+Sans:wght@400''] \<and>
   fst (fetchTtf sampleDeps ''Open Sans'' 400 (snd (fetchTtf sampleDeps ''Open Sans'' 400 emptyWorld))) =
     Inr None \<and>
   requests (snd (fetchTtf sampleDeps ''Open Sans'' 400
                    (snd (fetchTtf sampleDeps ''Open Sans'' 400 emptyWorld)))) =
     [''https://fonts.googleapis.com/css2?family=Open+Sans:wght@400'',
      ''https://fonts.googleapis.com/css2?family=Open+Sans:wght@400'']"
  by (simp add: sample_fetch_OpenSans sample_fetch_OpenSans_again)

text \<open>
  In general: a resolution that returns \<open>undefined\<close> found no cache entry and writes none,
  and the next resolution of the pair requests the stylesheet again.
\<close>

lemma absent_resolution_not_cached:
  assumes "fetchTtf D rawFontName wght s = (Inr None, s1)"
  shows "files s1 = files s \<and> files s1 (cachePath D rawFontName wght) = None \<and>
         (\<exists>rest. requests (snd (fetchTtf D rawFontName wght s1)) =
                   requests s1 @ cssUrl rawFontName wght # rest)"
proof -
  have m: "files s (cachePath D rawFontName wght) = None"
    using assms by (auto simp: fetchTtf_def split: option.splits)
  have f: "files s1 = files s"
    using assms m
    by (auto simp: fetchTtf_def Let_def split: option.splits sum.splits if_splits)
  have "\<exists>rest. requests (snd (fetchTtf D rawFontName wght s1)) =
                 requests s1 @ cssUrl rawFontName wght # rest"
    using m f
    by (auto simp: fetchTtf_def Let_def split: option.splits sum.splits)
  with m f show ?thesis by simp
qed


text \<open>The group of the pattern is never empty: the branch \<open>if (!fontUrl)\<close> is never taken.\<close>

lemma urlRegex_here_nonempty: "urlRegex_here s = Some m \<Longrightarrow> m \<noteq> []"
  by (auto simp: urlRegex_here_def split: option.splits list.splits if_splits)

lemma urlRegex_exec_nonempty: "urlRegex_exec s = Some m \<Longrightarrow> m \<noteq> []"
  by (induction s) (auto split: option.splits dest: urlRegex_here_nonempty)








lemma sample_fetch_Inter_miss:
  assumes "files s ''quartz/.quartz-cache/fonts/Inter-700'' = None"
  shows "fetchTtf sampleDeps ''Inter'' 700 s =
     (Inr (Some [0, 1, 0, 0]),
      s\<lparr> requests := requests s @ [''https://fonts.googleapis.com/css2?family=Inter:wght@700'',
                                     ''https://fonts.gstatic.com/s/inter/v1/a.ttf''],
         files := (files s)(''quartz/.quartz-cache/fonts/Inter-700'' \<mapsto> [0, 1, 0, 0]) \<rparr>)"
  using assms
  by (simp add: fetchTtf_def sample_cssUrl_Inter sample_cachePath_Inter sample_css_match
      sample_fetch_field sampleFetch_def Let_def del: urlRegex_exec.simps)



end
